theory Spec2Isabelle
  imports Main
begin

section \<open>Python values, dictionaries, exceptions\<close>

text \<open>
  The pipeline passes JSON-like dictionaries around. A value is \<open>None\<close>, a boolean, an
  integer or a string; a dictionary maps string keys to values. Exceptions are the
  subclasses of \<open>Exception\<close> (the only ones the source's \<open>except Exception\<close> clauses
  catch), carried with their message.
\<close>

datatype pyval = PNone | PBool bool | PInt int | PStr string

type_synonym dict = "string \<rightharpoonup> pyval"

datatype exn = Exception string

text \<open>Python truthiness, as tested by \<open>not doc_id\<close>, \<open>if d\<close>.\<close>

fun truthy :: "pyval \<Rightarrow> bool" where
  "truthy PNone = False"
| "truthy (PBool b) = b"
| "truthy (PInt i) = (i \<noteq> 0)"
| "truthy (PStr s) = (s \<noteq> [])"

text \<open>\<open>d.get(k)\<close> and \<open>d.get(k, default)\<close>.\<close>

definition dict_get :: "dict \<Rightarrow> string \<Rightarrow> pyval" where
  "dict_get d k = (case d k of None \<Rightarrow> PNone | Some v \<Rightarrow> v)"

definition dict_get_default :: "dict \<Rightarrow> string \<Rightarrow> pyval \<Rightarrow> pyval" where
  "dict_get_default d k dflt = (case d k of None \<Rightarrow> dflt | Some v \<Rightarrow> v)"

text \<open>
  \<open>doc_id in existing_doc_ids\<close>: the known identifiers are a set of strings (what the
  persistence gateway returns), so only a string can be a member.
\<close>

fun py_in :: "pyval \<Rightarrow> string set \<Rightarrow> bool" where
  "py_in (PStr s) K = (s \<in> K)"
| "py_in v K = False"

text \<open>
  \<open>str.strip()\<close> removes leading and trailing whitespace; these are the whitespace
  characters of Python below code point 256.
\<close>

definition py_isspace :: "char \<Rightarrow> bool" where
  "py_isspace c = (of_char c \<in> set [9, 10, 11, 12, 13, 28, 29, 30, 31, 32, 133, 160 :: nat])"

definition strip :: "string \<Rightarrow> string" where
  "strip s = rev (dropWhile py_isspace (rev (dropWhile py_isspace s)))"

section \<open>Observable effects: log lines and collaborator calls\<close>

text \<open>
  Every \<open>logger\<close> call of the two modules is one constructor of \<open>msg\<close>, holding the
  values its f-string interpolates. Every call into an external collaborator is one
  constructor of \<open>call\<close>. A function of the model returns its result together with the
  events it emitted, in order.
\<close>

datatype level = INFO | WARNING | ERROR

datatype msg =
    StartingScrape int bool "int option"
  | ScrapeComplete nat
  | ScrapeNoFilings
  | SenateScraperUnavailable
  | SenateScrapingFailed exn
  | SenateHelpersUnavailable
  | SenateNoText pyval
  | SenateExtracted pyval nat
  | SenateProcessingFailed pyval exn
  | FilteredNew nat nat
  | ProcessingFiling nat nat pyval pyval
  | Extracted pyval nat
  | FailedProcessing pyval exn
  | DryRunPreview
  | PreviewJson dict
  | SavedScrapeJson int
  | DbInitFailed exn
  | NoNewHouseFilings
  | NoSenateLinks
  | NoTransactions
  | PipelineComplete dict
  | PdfTextExtractionFailed exn
  | ParserUnavailable
  | ProcessingPdf pyval
  | ScanFailedFallback exn
  | DownloadFailed exn
  | NoLlmCsv

datatype call =
    HouseScrape bool int "int option"
  | WriteScrapeJson int "dict list"
  | DbConstruct
  | DbGetExistingDocIds
  | DbProcessTransactionsBatch "dict list"
  | SenateScrapeAllPtrLinks
  | ChromeStart bool
  | VerifySession
  | DriverGet pyval
  | ExtractTextFromPage pyval
  | CallLlmApiWithText string pyval pyval pyval
  | SenateParseLlmTransactions string pyval
  | DriverQuit
  | ScanWithOpenrouter pyval pyval
  | HorParseLlmTransactions string pyval
  | RequestsGet pyval
  | FitzOpen string

datatype event = Log level msg | Call call

text \<open>
  A computation of the model: either the exception that propagates out of it (\<open>Inl\<close>)
  or its result (\<open>Inr\<close>), and the events emitted up to that point.
\<close>

type_synonym 'a io = "(exn + 'a) \<times> event list"

definition io_return :: "'a \<Rightarrow> 'a io" where
  "io_return x = (Inr x, [])"

definition io_log :: "level \<Rightarrow> msg \<Rightarrow> unit io" where
  "io_log l m = (Inr (), [Log l m])"

text \<open>A collaborator call: the call is recorded, its outcome is what the environment answers.\<close>

definition io_call :: "call \<Rightarrow> exn + 'a \<Rightarrow> 'a io" where
  "io_call c outcome = (outcome, [Call c])"

text \<open>Sequencing: an exception in the first part skips the rest.\<close>

definition io_bind :: "'a io \<Rightarrow> ('a \<Rightarrow> 'b io) \<Rightarrow> 'b io" where
  "io_bind m f =
     (case m of
        (Inl e, evs) \<Rightarrow> (Inl e, evs)
      | (Inr x, evs) \<Rightarrow> (case f x of (r, evs') \<Rightarrow> (r, evs @ evs')))"

text \<open>\<open>try: m except Exception as e: h e\<close>.\<close>

definition try_except :: "'a io \<Rightarrow> (exn \<Rightarrow> 'a io) \<Rightarrow> 'a io" where
  "try_except m h =
     (case m of
        (Inl e, evs) \<Rightarrow> (case h e of (r, evs') \<Rightarrow> (r, evs @ evs'))
      | (Inr x, evs) \<Rightarrow> (Inr x, evs))"

section \<open>The environment: external collaborators\<close>

text \<open>
  The collaborators are not part of the two modules; each is a field of the environment
  that gives the outcome of the call (an exception or a value) for its arguments.
  \<open>hor_scan_with_openrouter\<close> and \<open>hor_parse_llm_transactions\<close> are \<open>None\<close> when the import
  of the HOR module failed, as are \<open>senate_scraper\<close> and \<open>senate_llm\<close> for the Senate
  modules. A PDF opened by \<open>fitz\<close> is the list of its pages, each with the outcome of
  \<open>page.get_text()\<close>.
\<close>

type_synonym bytes = string

record pdf_env =
  hor_scan_with_openrouter :: "(pyval \<Rightarrow> pyval \<Rightarrow> exn + string) option"
  hor_parse_llm_transactions :: "(string \<Rightarrow> pyval \<Rightarrow> exn + dict list) option"
  requests_get :: "pyval \<Rightarrow> exn + bytes"
  fitz_open :: "bytes \<Rightarrow> exn + (exn + string) list"

datatype link_item = TupleItem "pyval list" | DictItem dict | OtherItem

record senate_llm_module =
  call_llm_api_with_text :: "string \<Rightarrow> pyval \<Rightarrow> pyval \<Rightarrow> pyval \<Rightarrow> exn + string option"
  parse_llm_transactions :: "string \<Rightarrow> pyval \<Rightarrow> exn + dict list"

record env =
  pdf :: pdf_env
  house_scrape :: "bool \<Rightarrow> int \<Rightarrow> int option \<Rightarrow> exn + dict list"
  write_scrape_json :: "int \<Rightarrow> dict list \<Rightarrow> exn + unit"
  db_construct :: "exn + unit"
  db_get_existing_doc_ids :: "exn + string set"
  db_process_transactions_batch :: "dict list \<Rightarrow> exn + dict"
  senate_scraper :: "(exn + link_item list) option"
  senate_llm :: "senate_llm_module option"
  chrome_start :: "bool \<Rightarrow> exn + unit"
  verify_session :: "exn + unit"
  driver_get :: "pyval \<Rightarrow> exn + unit"
  extract_text_from_page :: "pyval \<Rightarrow> pyval \<Rightarrow> exn + string"

text \<open>The parsed command line (\<open>--headless\<close>, \<open>--house\<close>, \<open>--senate\<close> already compared with \<open>"true"\<close>).\<close>

record args =
  args_year :: int
  args_headless :: bool
  args_limit :: int
  args_max_pages :: int
  args_dry_run :: bool
  args_save_scrape_json :: bool
  args_house :: bool
  args_senate :: bool

section \<open>Module \<open>ptr_pdf_processor\<close>\<close>

text \<open>The page loop of \<open>_extract_pdf_text\<close>: a page whose \<open>get_text()\<close> raises ends the loop.\<close>

fun page_texts :: "(exn + string) list \<Rightarrow> string list \<Rightarrow> exn + string list" where
  "page_texts [] text = Inr text"
| "page_texts (page # pages) text =
     (case page of
        Inl e \<Rightarrow> Inl e
      | Inr page_text \<Rightarrow> page_texts pages (if page_text \<noteq> [] then text @ [page_text] else text))"

text \<open>\<open>sep.join(xs)\<close>.\<close>

fun join :: "string \<Rightarrow> string list \<Rightarrow> string" where
  "join sep [] = []"
| "join sep [x] = x"
| "join sep (x # y # ys) = x @ sep @ join sep (y # ys)"

definition extract_pdf_text :: "pdf_env \<Rightarrow> bytes \<Rightarrow> string io" where
  "extract_pdf_text e pdf_bytes =
     try_except
       (io_bind (io_call (FitzOpen pdf_bytes) (fitz_open e pdf_bytes)) (\<lambda>doc.
        io_bind (page_texts doc [], []) (\<lambda>text.
        io_return (join [CHR 0x0A] text))))
       (\<lambda>ex. io_bind (io_log ERROR (PdfTextExtractionFailed ex)) (\<lambda>_. io_return []))"

definition download :: "pdf_env \<Rightarrow> pyval \<Rightarrow> bytes io" where
  "download e pdf_url = io_call (RequestsGet pdf_url) (requests_get e pdf_url)"

text \<open>The dictionary literal built for each parsed row in \<open>_normalize_transactions\<close>.\<close>

definition normalize_row :: "dict \<Rightarrow> dict" where
  "normalize_row t =
     [''transaction_date'' \<mapsto> dict_get t ''transaction_date_str'',
      ''ticker'' \<mapsto> dict_get t ''ticker'',
      ''asset_name'' \<mapsto> dict_get t ''company_name'',
      ''transaction_type'' \<mapsto> dict_get t ''transaction_type_full'',
      ''amount_low'' \<mapsto> dict_get t ''amount_low'',
      ''amount_high'' \<mapsto> dict_get t ''amount_high'',
      ''owner'' \<mapsto> dict_get t ''owner_code'',
      ''comment'' \<mapsto> dict_get_default t ''raw_llm_line'' (PStr [])]"

definition normalize_transactions :: "pdf_env \<Rightarrow> string \<Rightarrow> pyval \<Rightarrow> dict list io" where
  "normalize_transactions e llm_csv_text doc_id =
     (case hor_parse_llm_transactions e of
        None \<Rightarrow> io_bind (io_log WARNING ParserUnavailable) (\<lambda>_. io_return [])
      | Some parse \<Rightarrow>
          io_bind (io_call (HorParseLlmTransactions llm_csv_text doc_id) (parse llm_csv_text doc_id))
            (\<lambda>parsed. io_return (map normalize_row parsed)))"

text \<open>
  The value \<open>process_ptr_pdf\<close> returns is a dictionary whose values are lists of rows.
\<close>

type_synonym processed = "string \<rightharpoonup> dict list"

text \<open>
  The second half of \<open>process_ptr_pdf\<close>, from the comment \<open># Fallback\<close> on: download,
  local text extraction, and then no rows in any case, since no CSV is produced locally.
\<close>

definition process_ptr_pdf_fallback :: "pdf_env \<Rightarrow> pyval \<Rightarrow> processed io" where
  "process_ptr_pdf_fallback e pdf_url =
     io_bind
       (try_except
          (io_bind (download e pdf_url) (\<lambda>pdf_bytes. io_return (Some pdf_bytes)))
          (\<lambda>ex. io_bind (io_log ERROR (DownloadFailed ex)) (\<lambda>_. io_return None))) (\<lambda>downloaded.
     case downloaded of
       None \<Rightarrow> io_return [''transactions'' \<mapsto> []]
     | Some pdf_bytes \<Rightarrow>
         io_bind (extract_pdf_text e pdf_bytes) (\<lambda>text.
         if strip text = [] \<or> hor_parse_llm_transactions e = None
         then io_return [''transactions'' \<mapsto> []]
         else io_bind (io_log INFO NoLlmCsv) (\<lambda>_. io_return [''transactions'' \<mapsto> []])))"

text \<open>
  The first half: when both HOR functions were imported, scan and normalise inside a
  \<open>try\<close>. \<open>Some r\<close> is the \<open>return r\<close> inside the \<open>try\<close>; \<open>None\<close> means control
  reaches the fallback (scanner missing, or the handler ran).
\<close>

definition process_ptr_pdf :: "pdf_env \<Rightarrow> pyval \<Rightarrow> pyval \<Rightarrow> processed io" where
  "process_ptr_pdf e pdf_url doc_id =
     io_bind (io_log INFO (ProcessingPdf doc_id)) (\<lambda>_.
     io_bind
       (case (hor_scan_with_openrouter e, hor_parse_llm_transactions e) of
          (Some scan, Some _) \<Rightarrow>
            try_except
              (io_bind (io_call (ScanWithOpenrouter pdf_url doc_id) (scan pdf_url doc_id)) (\<lambda>llm_csv.
               io_bind (normalize_transactions e llm_csv doc_id) (\<lambda>transactions.
               io_return (Some [''transactions'' \<mapsto> transactions]))))
              (\<lambda>ex. io_bind (io_log WARNING (ScanFailedFallback ex)) (\<lambda>_. io_return None))
        | _ \<Rightarrow> io_return None) (\<lambda>returned.
     case returned of
       Some r \<Rightarrow> io_return r
     | None \<Rightarrow> process_ptr_pdf_fallback e pdf_url))"

section \<open>Module \<open>daily_ptr_checker\<close>\<close>

subsection \<open>\<open>scrape_ptrs\<close> and \<open>senate_scrape_links\<close>\<close>

definition scrape_ptrs :: "env \<Rightarrow> int \<Rightarrow> bool \<Rightarrow> int \<Rightarrow> dict list io" where
  "scrape_ptrs e year headless max_pages =
     (let pages = (if max_pages \<le> 0 then None else Some max_pages) in
      io_bind (io_log INFO (StartingScrape year headless pages)) (\<lambda>_.
      io_bind (io_call (HouseScrape headless year pages) (house_scrape e headless year pages)) (\<lambda>filings.
      io_bind (if filings \<noteq> [] then io_log INFO (ScrapeComplete (length filings))
               else io_log WARNING ScrapeNoFilings) (\<lambda>_.
      io_return filings))))"

text \<open>
  The normalisation loop of \<open>senate_scrape_links\<close>: a 3-tuple is kept, a dictionary gives
  the triple of its \<open>doc_id\<close>, \<open>url\<close>, \<open>member_name\<close>, anything else is dropped.
\<close>

fun normalize_links :: "link_item list \<Rightarrow> (pyval \<times> pyval \<times> pyval) list" where
  "normalize_links [] = []"
| "normalize_links (TupleItem [d, u, m] # items) = (d, u, m) # normalize_links items"
| "normalize_links (DictItem item # items) =
     (dict_get item ''doc_id'', dict_get item ''url'', dict_get item ''member_name'') # normalize_links items"
| "normalize_links (item # items) = normalize_links items"

definition senate_scrape_links :: "env \<Rightarrow> int \<Rightarrow> (pyval \<times> pyval \<times> pyval) list io" where
  "senate_scrape_links e max_pages =
     (case senate_scraper e of
        None \<Rightarrow> io_bind (io_log WARNING SenateScraperUnavailable) (\<lambda>_. io_return [])
      | Some scrape_all_ptr_links \<Rightarrow>
          try_except
            (io_bind (io_call SenateScrapeAllPtrLinks scrape_all_ptr_links) (\<lambda>links.
             io_return (normalize_links links)))
            (\<lambda>ex. io_bind (io_log ERROR (SenateScrapingFailed ex)) (\<lambda>_. io_return [])))"

subsection \<open>\<open>senate_links_to_transactions\<close>\<close>

text \<open>The dictionary literal appended for each parsed Senate row.\<close>

definition senate_transaction :: "pyval \<Rightarrow> pyval \<Rightarrow> pyval \<Rightarrow> dict \<Rightarrow> dict" where
  "senate_transaction doc_id member_name url t =
     [''doc_id'' \<mapsto> doc_id,
      ''member_name'' \<mapsto> member_name,
      ''office'' \<mapsto> PStr ''Senate'',
      ''pdf_url'' \<mapsto> url,
      ''ticker'' \<mapsto> dict_get t ''ticker'',
      ''asset_name'' \<mapsto> dict_get t ''company_name'',
      ''transaction_type'' \<mapsto> dict_get t ''transaction_type_full'',
      ''transaction_date'' \<mapsto> dict_get t ''transaction_date_str'',
      ''amount_low'' \<mapsto> dict_get t ''amount_low'',
      ''amount_high'' \<mapsto> dict_get t ''amount_high'',
      ''owner'' \<mapsto> dict_get t ''owner_code'',
      ''comment'' \<mapsto> dict_get_default t ''raw_llm_line'' (PStr [])]"

text \<open>
  The inner \<open>try\<close> of the link loop, for one link that passed the two guards. The page
  text \<open>extract_text_from_page\<close> reads is that of the URL the driver has just loaded.
\<close>

definition senate_process_link ::
  "env \<Rightarrow> senate_llm_module \<Rightarrow> pyval \<Rightarrow> pyval \<Rightarrow> pyval \<Rightarrow> dict list \<Rightarrow> dict list io" where
  "senate_process_link e llm doc_id url member_name transactions =
     try_except
       (io_bind (io_call (DriverGet url) (driver_get e url)) (\<lambda>_.
        io_bind (io_call (ExtractTextFromPage doc_id) (extract_text_from_page e url doc_id)) (\<lambda>text.
        if strip text = [] then
          io_bind (io_log INFO (SenateNoText doc_id)) (\<lambda>_. io_return transactions)
        else
          io_bind (io_call (CallLlmApiWithText text doc_id member_name url)
                     (call_llm_api_with_text llm text doc_id member_name url)) (\<lambda>csv_text.
          let csv = (case csv_text of None \<Rightarrow> [] | Some c \<Rightarrow> c) in
          io_bind (io_call (SenateParseLlmTransactions csv doc_id)
                     (parse_llm_transactions llm csv doc_id)) (\<lambda>parsed.
          io_bind (io_log INFO (SenateExtracted doc_id (length parsed))) (\<lambda>_.
          io_return (transactions @ map (senate_transaction doc_id member_name url) parsed)))))))
       (\<lambda>ex. io_bind (io_log ERROR (SenateProcessingFailed doc_id ex)) (\<lambda>_. io_return transactions))"

text \<open>The \<open>for\<close> loop over the links, with \<open>count\<close> and \<open>transactions\<close> as loop state.\<close>

fun senate_links_loop ::
  "env \<Rightarrow> senate_llm_module \<Rightarrow> int \<Rightarrow> (pyval \<times> pyval \<times> pyval) list \<Rightarrow> int \<Rightarrow> dict list \<Rightarrow> dict list io" where
  "senate_links_loop e llm max_count [] count transactions = io_return transactions"
| "senate_links_loop e llm max_count ((doc_id, url, member_name) # links) count transactions =
     (if \<not> truthy doc_id \<or> \<not> truthy url then
        senate_links_loop e llm max_count links count transactions
      else if 0 < max_count \<and> max_count \<le> count then io_return transactions
      else
        io_bind (senate_process_link e llm doc_id url member_name transactions)
          (senate_links_loop e llm max_count links (count + 1)))"

text \<open>
  Starting Chrome and \<open>verify_session\<close> are outside the inner \<open>try\<close>: an exception there
  propagates, after \<open>driver.quit()\<close> when the driver exists (\<open>finally\<close>). The names
  \<open>verify_session\<close> and \<open>extract_text_from_page\<close> are imported together with
  \<open>senate_llm\<close>, so the availability test is the one on \<open>senate_llm\<close>; \<open>driver.quit()\<close>
  itself is taken not to raise.
\<close>

definition senate_links_to_transactions ::
  "env \<Rightarrow> (pyval \<times> pyval \<times> pyval) list \<Rightarrow> bool \<Rightarrow> int \<Rightarrow> dict list io" where
  "senate_links_to_transactions e links headless max_count =
     (case senate_llm e of
        None \<Rightarrow> io_bind (io_log WARNING SenateHelpersUnavailable) (\<lambda>_. io_return [])
      | Some llm \<Rightarrow>
          io_bind (io_call (ChromeStart headless) (chrome_start e headless)) (\<lambda>_.
          case io_bind (io_call VerifySession (verify_session e)) (\<lambda>_.
                 senate_links_loop e llm max_count links 0 []) of
            (r, evs) \<Rightarrow> (r, evs @ [Call DriverQuit])))"

subsection \<open>Dedup filter: \<open>filter_new_filings\<close>\<close>

text \<open>
  The \<open>for\<close> loop of \<open>filter_new_filings\<close>, with \<open>new_filings\<close> as accumulator: a filing
  with a falsy \<open>doc_id\<close> is skipped, an unknown one is appended, and the loop breaks once
  \<open>0 < limit <= len(new_filings)\<close>.
\<close>

fun filter_new_filings_loop :: "dict list \<Rightarrow> string set \<Rightarrow> int \<Rightarrow> dict list \<Rightarrow> dict list" where
  "filter_new_filings_loop [] existing_doc_ids limit new_filings = new_filings"
| "filter_new_filings_loop (f # fs) existing_doc_ids limit new_filings =
     (let doc_id = dict_get f ''doc_id'' in
      if \<not> truthy doc_id then filter_new_filings_loop fs existing_doc_ids limit new_filings
      else if \<not> py_in doc_id existing_doc_ids then
        (let new_filings' = new_filings @ [f] in
         if 0 < limit \<and> limit \<le> int (length new_filings') then new_filings'
         else filter_new_filings_loop fs existing_doc_ids limit new_filings')
      else filter_new_filings_loop fs existing_doc_ids limit new_filings)"

definition filter_new_filings :: "dict list \<Rightarrow> string set \<Rightarrow> int \<Rightarrow> dict list io" where
  "filter_new_filings filings existing_doc_ids limit =
     (let new_filings = filter_new_filings_loop filings existing_doc_ids limit [] in
      io_bind (io_log INFO (FilteredNew (length new_filings) (length filings))) (\<lambda>_.
      io_return new_filings))"

subsection \<open>Batch extractor: \<open>process_filings_to_transactions\<close>\<close>

text \<open>
  The extraction adapter (\<open>process_ptr_pdf\<close> in the running program) is a parameter.
  \<open>transactions_of\<close> is \<open>processed.get("transactions", [])\<close>; \<open>or {}\<close> leaves a dictionary
  as it is. Each row is copied and tagged with the four metadata fields of its filing.
\<close>

definition transactions_of :: "processed \<Rightarrow> dict list" where
  "transactions_of processed = (case processed ''transactions'' of None \<Rightarrow> [] | Some ts \<Rightarrow> ts)"

definition tag_transaction :: "pyval \<Rightarrow> pyval \<Rightarrow> pyval \<Rightarrow> pyval \<Rightarrow> dict \<Rightarrow> dict" where
  "tag_transaction doc_id member_name office pdf_url t =
     t(''doc_id'' \<mapsto> doc_id, ''member_name'' \<mapsto> member_name,
       ''office'' \<mapsto> office, ''pdf_url'' \<mapsto> pdf_url)"

text \<open>One iteration of the loop: the log line, then the \<open>try\<close> with its handler.\<close>

definition process_filing ::
  "(pyval \<Rightarrow> pyval \<Rightarrow> processed io) \<Rightarrow> nat \<Rightarrow> nat \<Rightarrow> dict \<Rightarrow> dict list \<Rightarrow> dict list io" where
  "process_filing process_pdf idx n filing all_transactions =
     (let doc_id = dict_get filing ''doc_id'';
          pdf_url = dict_get filing ''pdf_url'';
          member_name = dict_get filing ''member_name'';
          office = dict_get filing ''office'' in
      io_bind (io_log INFO (ProcessingFiling idx n doc_id member_name)) (\<lambda>_.
      try_except
        (io_bind (process_pdf pdf_url doc_id) (\<lambda>processed.
         let transactions = transactions_of processed in
         io_bind (io_log INFO (Extracted doc_id (length transactions))) (\<lambda>_.
         io_return (all_transactions
                    @ map (tag_transaction doc_id member_name office pdf_url) transactions))))
        (\<lambda>ex. io_bind (io_log ERROR (FailedProcessing doc_id ex)) (\<lambda>_. io_return all_transactions))))"

fun process_filings_loop ::
  "(pyval \<Rightarrow> pyval \<Rightarrow> processed io) \<Rightarrow> nat \<Rightarrow> nat \<Rightarrow> dict list \<Rightarrow> dict list \<Rightarrow> dict list io" where
  "process_filings_loop process_pdf idx n [] all_transactions = io_return all_transactions"
| "process_filings_loop process_pdf idx n (filing # filings) all_transactions =
     io_bind (process_filing process_pdf idx n filing all_transactions)
       (process_filings_loop process_pdf (Suc idx) n filings)"

definition process_filings_to_transactions ::
  "(pyval \<Rightarrow> pyval \<Rightarrow> processed io) \<Rightarrow> dict list \<Rightarrow> dict list io" where
  "process_filings_to_transactions process_pdf new_filings =
     process_filings_loop process_pdf 1 (length new_filings) new_filings []"

subsection \<open>\<open>persist_transactions\<close>\<close>

text \<open>
  The preview line is \<open>json.dumps(transactions[0])\<close>, which every value of \<open>pyval\<close>
  admits. \<open>SupabaseDBProcessor()\<close> and \<open>process_transactions_batch\<close> are the two
  gateway calls of the non-dry branch.
\<close>

definition persist_transactions :: "env \<Rightarrow> dict list \<Rightarrow> bool \<Rightarrow> dict io" where
  "persist_transactions e transactions dry_run =
     (if dry_run then
        io_bind (io_log INFO DryRunPreview) (\<lambda>_.
        io_bind (case transactions of [] \<Rightarrow> io_return () | t # _ \<Rightarrow> io_log INFO (PreviewJson t)) (\<lambda>_.
        io_return [''dry_run'' \<mapsto> PBool True, ''transactions'' \<mapsto> PInt (int (length transactions))]))
      else
        io_bind (io_call DbConstruct (db_construct e)) (\<lambda>_.
        io_call (DbProcessTransactionsBatch transactions) (db_process_transactions_batch e transactions)))"

subsection \<open>The driver: \<open>main\<close>\<close>

text \<open>The two lines of \<open>main\<close> that compute \<open>remaining\<close> and the Senate stage's \<open>max_count\<close>.\<close>

definition senate_max_count :: "int \<Rightarrow> bool \<Rightarrow> dict list \<Rightarrow> int" where
  "senate_max_count limit include_house all_transactions =
     (let remaining = (if limit > 0 then max 0 (limit - int (length all_transactions)) else 0)
      in if include_house \<and> remaining > 0 then remaining else (if limit > 0 then limit else 0))"

text \<open>Step 3 of \<open>main\<close>: the House stage, returning \<open>all_transactions\<close> after it.\<close>

definition house_stage :: "env \<Rightarrow> bool \<Rightarrow> dict list \<Rightarrow> string set \<Rightarrow> int \<Rightarrow> dict list io" where
  "house_stage e include_house filings existing_doc_ids limit =
     (if include_house \<and> filings \<noteq> [] then
        io_bind (filter_new_filings filings existing_doc_ids limit) (\<lambda>new_filings.
        if new_filings \<noteq> [] then
          io_bind (process_filings_to_transactions (process_ptr_pdf (pdf e)) new_filings) (\<lambda>house_transactions.
          io_return ([] @ house_transactions))
        else io_bind (io_log INFO NoNewHouseFilings) (\<lambda>_. io_return []))
      else io_return [])"

text \<open>Step 4 of \<open>main\<close>: the Senate stage, extending \<open>all_transactions\<close>.\<close>

definition senate_stage ::
  "env \<Rightarrow> bool \<Rightarrow> bool \<Rightarrow> bool \<Rightarrow> int \<Rightarrow> string set \<Rightarrow> int \<Rightarrow> dict list \<Rightarrow> dict list io" where
  "senate_stage e include_house include_senate headless max_pages existing_doc_ids limit all_transactions =
     (if include_senate \<and> senate_scraper e \<noteq> None \<and> senate_llm e \<noteq> None then
        io_bind (senate_scrape_links e max_pages) (\<lambda>s_links.
        if s_links \<noteq> [] then
          (let s_links' = filter (\<lambda>(d, u, m). truthy d \<and> \<not> py_in d existing_doc_ids) s_links;
               max_count = senate_max_count limit include_house all_transactions in
           io_bind (senate_links_to_transactions e s_links' headless max_count) (\<lambda>senate_transactions.
           io_return (all_transactions @ senate_transactions)))
        else io_bind (io_log INFO NoSenateLinks) (\<lambda>_. io_return all_transactions))
      else io_return all_transactions)"

text \<open>
  \<open>main\<close> returns nothing: \<open>Inr ()\<close> is a normal return (also the early ones), \<open>Inl\<close> an
  exception that leaves \<open>main\<close>. The result of step 2 is \<open>None\<close> when the handler returned.
\<close>

definition main :: "args \<Rightarrow> env \<Rightarrow> unit io" where
  "main a e =
     (let headless = args_headless a;
          year = args_year a;
          limit = max 0 (args_limit a);
          max_pages = args_max_pages a;
          dry_run = args_dry_run a;
          include_house = args_house a;
          include_senate = args_senate a in
      io_bind
        (if include_house then
           io_bind (scrape_ptrs e year headless max_pages) (\<lambda>filings.
           if args_save_scrape_json a then
             io_bind (io_call (WriteScrapeJson year filings) (write_scrape_json e year filings)) (\<lambda>_.
             io_bind (io_log INFO (SavedScrapeJson year)) (\<lambda>_. io_return filings))
           else io_return filings)
         else io_return []) (\<lambda>filings.
      io_bind
        (try_except
           (io_bind (io_call DbConstruct (db_construct e)) (\<lambda>_.
            io_bind (io_call DbGetExistingDocIds (db_get_existing_doc_ids e)) (\<lambda>ids.
            io_return (Some ids))))
           (\<lambda>ex. io_bind (io_log ERROR (DbInitFailed ex)) (\<lambda>_. io_return None))) (\<lambda>loaded.
      case loaded of
        None \<Rightarrow> io_return ()
      | Some existing_doc_ids \<Rightarrow>
          io_bind (house_stage e include_house filings existing_doc_ids limit) (\<lambda>all_transactions.
          io_bind (senate_stage e include_house include_senate headless max_pages
                     existing_doc_ids limit all_transactions) (\<lambda>all_transactions.
          if all_transactions = [] then io_bind (io_log INFO NoTransactions) (\<lambda>_. io_return ())
          else
            io_bind (persist_transactions e all_transactions dry_run) (\<lambda>stats.
            io_log INFO (PipelineComplete stats)))))))"

section \<open>Notions used in the properties\<close>

text \<open>
  The tagged transactions of one filing: none when extraction raises, otherwise the
  adapter's rows with the filing's metadata.
\<close>

definition tagged_transactions_of :: "(pyval \<Rightarrow> pyval \<Rightarrow> processed io) \<Rightarrow> dict \<Rightarrow> dict list" where
  "tagged_transactions_of process_pdf filing =
     (case fst (process_pdf (dict_get filing ''pdf_url'') (dict_get filing ''doc_id'')) of
        Inl ex \<Rightarrow> []
      | Inr processed \<Rightarrow>
          map (tag_transaction (dict_get filing ''doc_id'') (dict_get filing ''member_name'')
                 (dict_get filing ''office'') (dict_get filing ''pdf_url''))
            (transactions_of processed))"

text \<open>
  The events of one filing with index \<open>idx\<close> in a batch of \<open>n\<close>: the progress line, what
  the adapter itself emitted, then one line: the failure with the filing's \<open>doc_id\<close> when
  extraction raised, the row count otherwise.
\<close>

definition filing_events :: "(pyval \<Rightarrow> pyval \<Rightarrow> processed io) \<Rightarrow> nat \<Rightarrow> nat \<times> dict \<Rightarrow> event list" where
  "filing_events process_pdf n p =
     (case p of (idx, filing) \<Rightarrow>
       Log INFO (ProcessingFiling idx n (dict_get filing ''doc_id'') (dict_get filing ''member_name''))
       # snd (process_pdf (dict_get filing ''pdf_url'') (dict_get filing ''doc_id''))
       @ [case fst (process_pdf (dict_get filing ''pdf_url'') (dict_get filing ''doc_id'')) of
            Inl ex \<Rightarrow> Log ERROR (FailedProcessing (dict_get filing ''doc_id'') ex)
          | Inr processed \<Rightarrow>
              Log INFO (Extracted (dict_get filing ''doc_id'') (length (transactions_of processed)))])"

text \<open>The twelve fields of a canonical transaction.\<close>

definition canonical_fields :: "string set" where
  "canonical_fields =
     {''doc_id'', ''member_name'', ''office'', ''pdf_url'', ''ticker'', ''asset_name'',
      ''transaction_type'', ''transaction_date'', ''amount_low'', ''amount_high'', ''owner'',
      ''comment''}"

text \<open>
  For each canonical field filled from a parsed row: the row's key it is read from, and
  the explicit value it gets when the row has no such key.
\<close>

definition field_sources :: "(string \<times> string \<times> pyval) list" where
  "field_sources =
     [(''ticker'', ''ticker'', PNone),
      (''asset_name'', ''company_name'', PNone),
      (''transaction_type'', ''transaction_type_full'', PNone),
      (''transaction_date'', ''transaction_date_str'', PNone),
      (''amount_low'', ''amount_low'', PNone),
      (''amount_high'', ''amount_high'', PNone),
      (''owner'', ''owner_code'', PNone),
      (''comment'', ''raw_llm_line'', PStr [])]"

text \<open>
  An event that starts the processing of one new filing: the progress line of the batch
  extractor (House), the page load of the link loop (Senate).
\<close>

definition starts_filing :: "event \<Rightarrow> bool" where
  "starts_filing ev =
     (case ev of
        Log l (ProcessingFiling idx n doc_id member_name) \<Rightarrow> True
      | Call (DriverGet url) \<Rightarrow> True
      | _ \<Rightarrow> False)"

section \<open>Example inputs\<close>

definition filing_A :: dict where
  "filing_A = [''doc_id'' \<mapsto> PStr ''A'', ''pdf_url'' \<mapsto> PStr ''http://a'',
               ''member_name'' \<mapsto> PStr ''Rep. A'', ''office'' \<mapsto> PStr ''House'']"

definition filing_B :: dict where
  "filing_B = [''doc_id'' \<mapsto> PStr ''B'', ''pdf_url'' \<mapsto> PStr ''http://b'',
               ''member_name'' \<mapsto> PStr ''Rep. B'', ''office'' \<mapsto> PStr ''House'']"

definition filing_C :: dict where
  "filing_C = [''doc_id'' \<mapsto> PStr ''C'', ''pdf_url'' \<mapsto> PStr ''http://c'']"

definition filing_D :: dict where
  "filing_D = [''doc_id'' \<mapsto> PStr ''D'', ''pdf_url'' \<mapsto> PStr ''http://d'']"

definition filing_empty_id :: dict where
  "filing_empty_id = [''doc_id'' \<mapsto> PStr [], ''pdf_url'' \<mapsto> PStr ''http://e'']"

definition filing_none_id :: dict where
  "filing_none_id = [''doc_id'' \<mapsto> PNone, ''pdf_url'' \<mapsto> PStr ''http://n'']"

definition filing_no_id :: dict where
  "filing_no_id = [''pdf_url'' \<mapsto> PStr ''http://m'']"

text \<open>A parsed row that has a ticker and a company name and nothing else.\<close>

definition raw_row :: dict where
  "raw_row = [''ticker'' \<mapsto> PStr ''ACME'', ''company_name'' \<mapsto> PStr ''Acme Corp'']"

text \<open>An extraction adapter that raises for filing \<open>B\<close> and returns one row otherwise.\<close>

definition failing_B_adapter :: "pyval \<Rightarrow> pyval \<Rightarrow> processed io" where
  "failing_B_adapter pdf_url doc_id =
     (if doc_id = PStr ''B'' then (Inl (Exception ''bad pdf''), [])
      else (Inr [''transactions'' \<mapsto> [normalize_row raw_row]], []))"

text \<open>
  A healthy environment: the scanner and both parsers return one row per document, the
  House site lists filing \<open>A\<close>, the Senate site lists two links, nothing is known yet.
\<close>

definition ex_llm :: senate_llm_module where
  "ex_llm = \<lparr>call_llm_api_with_text = (\<lambda>page_text d m u. Inr (Some ''csv'')),
             parse_llm_transactions = (\<lambda>csv d. Inr [raw_row])\<rparr>"

definition ex_pdf_env :: pdf_env where
  "ex_pdf_env = \<lparr>hor_scan_with_openrouter = Some (\<lambda>u d. Inr ''csv''),
                 hor_parse_llm_transactions = Some (\<lambda>csv d. Inr [raw_row]),
                 requests_get = (\<lambda>u. Inl (Exception ''offline'')),
                 fitz_open = (\<lambda>b. Inr [])\<rparr>"

definition ex_env :: env where
  "ex_env = \<lparr>pdf = ex_pdf_env,
             house_scrape = (\<lambda>h y p. Inr [filing_A]),
             write_scrape_json = (\<lambda>y fs. Inr ()),
             db_construct = Inr (),
             db_get_existing_doc_ids = Inr {},
             db_process_transactions_batch = (\<lambda>txs. Inr Map.empty),
             senate_scraper =
               Some (Inr [TupleItem [PStr ''S1'', PStr ''http://s1'', PStr ''Sen. One''],
                          DictItem [''doc_id'' \<mapsto> PStr ''S2'', ''url'' \<mapsto> PStr ''http://s2'']]),
             senate_llm = Some ex_llm,
             chrome_start = (\<lambda>h. Inr ()),
             verify_session = Inr (),
             driver_get = (\<lambda>u. Inr ()),
             extract_text_from_page = (\<lambda>u d. Inr ''page text'')\<rparr>"

text \<open>\<open>--year 2025 --limit 1 --dry-run\<close>, both sources enabled.\<close>

definition ex_args :: args where
  "ex_args = \<lparr>args_year = 2025, args_headless = True, args_limit = 1, args_max_pages = 0,
              args_dry_run = True, args_save_scrape_json = False, args_house = True,
              args_senate = True\<rparr>"

text \<open>The same environment when every PDF yields two rows.\<close>

definition two_rows_env :: env where
  "two_rows_env =
     ex_env\<lparr>pdf := ex_pdf_env\<lparr>hor_parse_llm_transactions := Some (\<lambda>csv d. Inr [raw_row, raw_row])\<rparr>\<rparr>"

text \<open>The same environment when the House scraper, or the Senate scraper, raises.\<close>

definition house_down_env :: env where
  "house_down_env = ex_env\<lparr>house_scrape := (\<lambda>h y p. Inl (Exception ''site down''))\<rparr>"

definition senate_down_env :: env where
  "senate_down_env = ex_env\<lparr>senate_scraper := Some (Inl (Exception ''site down''))\<rparr>"

text \<open>
  PDF environments for the fallback: the scanner raises and the download fails; the
  scanner raises, the download succeeds and the PDF's pages hold only blanks.
\<close>

definition offline_pdf_env :: pdf_env where
  "offline_pdf_env = \<lparr>hor_scan_with_openrouter = Some (\<lambda>u d. Inl (Exception ''llm down'')),
                      hor_parse_llm_transactions = Some (\<lambda>csv d. Inr [raw_row]),
                      requests_get = (\<lambda>u. Inl (Exception ''offline'')),
                      fitz_open = (\<lambda>b. Inr [])\<rparr>"

definition blank_pdf_env :: pdf_env where
  "blank_pdf_env = \<lparr>hor_scan_with_openrouter = Some (\<lambda>u d. Inl (Exception ''llm down'')),
                    hor_parse_llm_transactions = Some (\<lambda>csv d. Inr [raw_row]),
                    requests_get = (\<lambda>u. Inr ''%PDF''),
                    fitz_open = (\<lambda>b. Inr [Inr '' '', Inr []])\<rparr>"

section \<open>Sequencing lemmas\<close>

lemma io_bind_Inr: "io_bind (Inr x, evs) f = (fst (f x), evs @ snd (f x))"
  by (simp add: io_bind_def split: prod.splits)

lemma io_bind_Inl: "io_bind (Inl ex, evs) f = (Inl ex, evs)"
  by (simp add: io_bind_def)

lemma io_bind_return: "io_bind (io_return x) f = f x"
  by (simp add: io_bind_def io_return_def split: prod.splits)

lemma io_bind_log: "io_bind (io_log l m) f = (fst (f ()), Log l m # snd (f ()))"
  by (simp add: io_bind_def io_log_def split: prod.splits)

lemma try_except_Inr: "try_except (Inr x, evs) h = (Inr x, evs)"
  by (simp add: try_except_def)

lemma try_except_Inl: "try_except (Inl ex, evs) h = (fst (h ex), evs @ snd (h ex))"
  by (simp add: try_except_def split: prod.splits)

lemmas io_simps = io_bind_Inr io_bind_Inl io_bind_return io_bind_log try_except_Inr try_except_Inl
  io_call_def io_return_def

section \<open>Properties of the dedup filter\<close>

lemma filter_new_filings_loop_unlimited:
  "limit \<le> 0 \<Longrightarrow>
   filter_new_filings_loop fs K limit acc =
     acc @ filter (\<lambda>f. truthy (dict_get f ''doc_id'') \<and> \<not> py_in (dict_get f ''doc_id'') K) fs"
  by (induction fs arbitrary: acc) (simp_all add: Let_def)

lemma filter_new_filings_loop_length:
  "0 < limit \<Longrightarrow> int (length acc) < limit \<Longrightarrow>
   int (length (filter_new_filings_loop fs K limit acc)) \<le> limit"
  by (induction fs arbitrary: acc) (auto simp: Let_def)

lemma filter_new_filings_loop_subset:
  "set (filter_new_filings_loop fs K limit acc) \<subseteq>
     set acc \<union> {f \<in> set fs. truthy (dict_get f ''doc_id'') \<and> \<not> py_in (dict_get f ''doc_id'') K}"
proof (induction fs arbitrary: acc)
  case Nil
  show ?case by simp
next
  case (Cons a fs)
  have "set (filter_new_filings_loop fs K limit acc) \<subseteq>
     set acc \<union> {f \<in> set fs. truthy (dict_get f ''doc_id'') \<and> \<not> py_in (dict_get f ''doc_id'') K}"
    by (rule Cons.IH)
  moreover have "set (filter_new_filings_loop fs K limit (acc @ [a])) \<subseteq>
     set (acc @ [a]) \<union> {f \<in> set fs. truthy (dict_get f ''doc_id'') \<and> \<not> py_in (dict_get f ''doc_id'') K}"
    by (rule Cons.IH)
  ultimately show ?case
    by (auto simp: Let_def)
qed

text \<open>The filter never raises, and logs one line with the two counts.\<close>

lemma filter_new_filings_result:
  "filter_new_filings F K L =
     (Inr (filter_new_filings_loop F K L []),
      [Log INFO (FilteredNew (length (filter_new_filings_loop F K L [])) (length F))])"
  by (simp add: filter_new_filings_def Let_def io_return_def io_log_def io_bind_def)

text \<open>
  C5, as stated: with limit 0 the filter returns exactly the elements of \<open>F\<close> whose
  \<open>doc_id\<close> is not in \<open>K\<close>, in order, with no duplicates. This fails twice. A descriptor
  whose \<open>doc_id\<close> is the empty string is an element of \<open>F\<close> whose \<open>doc_id\<close> is not in the
  empty \<open>K\<close>, and the filter drops it; and a descriptor that occurs twice in \<open>F\<close> occurs
  twice in the output.
\<close>

theorem filter_new_filings_unlimited_counterexample:
  "filing_empty_id \<in> set [filing_empty_id]
   \<and> \<not> py_in (dict_get filing_empty_id ''doc_id'') {}
   \<and> fst (filter_new_filings [filing_empty_id] {} 0) = Inr []
   \<and> fst (filter_new_filings [filing_A, filing_A] {} 0) = Inr [filing_A, filing_A]
   \<and> \<not> distinct [filing_A, filing_A]"
  by (simp add: filter_new_filings_result filing_empty_id_def filing_A_def dict_get_def Let_def)

text \<open>
  C5, amended: for every list \<open>F\<close> and every set \<open>K\<close>, the filter called with limit 0
  returns exactly the elements of \<open>F\<close> whose \<open>doc_id\<close> is truthy (present, not \<open>None\<close>,
  not empty) and not in \<open>K\<close>, in the original order of \<open>F\<close>; if no two descriptors of
  \<open>F\<close> share a \<open>doc_id\<close>, no two descriptors of the output do.
\<close>

theorem filter_new_filings_unlimited:
  "fst (filter_new_filings F K 0) =
     Inr (filter (\<lambda>f. truthy (dict_get f ''doc_id'') \<and> \<not> py_in (dict_get f ''doc_id'') K) F)
   \<and> (distinct (map (\<lambda>f. dict_get f ''doc_id'') F) \<longrightarrow>
        distinct (map (\<lambda>f. dict_get f ''doc_id'')
          (filter (\<lambda>f. truthy (dict_get f ''doc_id'') \<and> \<not> py_in (dict_get f ''doc_id'') K) F)))"
  by (simp add: filter_new_filings_result filter_new_filings_loop_unlimited distinct_map_filter)

theorem filter_new_filings_unlimited_witness:
  "distinct (map (\<lambda>f. dict_get f ''doc_id'') [filing_A, filing_empty_id, filing_B, filing_no_id])
   \<and> fst (filter_new_filings [filing_A, filing_empty_id, filing_B, filing_no_id] {''B''} 0) = Inr [filing_A]
   \<and> distinct (map (\<lambda>f. dict_get f ''doc_id'') [filing_A])"
  using filter_new_filings_unlimited [of "[filing_A, filing_empty_id, filing_B, filing_no_id]" "{''B''}"]
  by (simp add: filing_A_def filing_B_def filing_empty_id_def filing_no_id_def dict_get_def)

text \<open>
  C7: for every \<open>F\<close>, \<open>K\<close> and limit \<open>L > 0\<close> the filter returns at most \<open>L\<close>
  descriptors; with \<open>L = 0\<close> there is no cap: every descriptor with a truthy, unknown
  \<open>doc_id\<close> is returned, however many there are.
\<close>

theorem filter_new_filings_limit:
  "(0 < L \<longrightarrow> (\<exists>new_filings. fst (filter_new_filings F K L) = Inr new_filings
                    \<and> int (length new_filings) \<le> L))
   \<and> (\<exists>new_filings. fst (filter_new_filings F K 0) = Inr new_filings
         \<and> length new_filings =
             length (filter (\<lambda>f. truthy (dict_get f ''doc_id'') \<and> \<not> py_in (dict_get f ''doc_id'') K) F))"
  by (simp add: filter_new_filings_result filter_new_filings_loop_unlimited filter_new_filings_loop_length)

theorem filter_new_filings_limit_witness:
  "(0::int) < 1
   \<and> fst (filter_new_filings [filing_A, filing_B] {} 1) = Inr [filing_A]
   \<and> int (length [filing_A]) \<le> 1
   \<and> fst (filter_new_filings [filing_A, filing_B] {} 0) = Inr [filing_A, filing_B]"
  using filter_new_filings_limit [of 1 "[filing_A, filing_B]" "{}"]
  by (simp add: filter_new_filings_result filing_A_def filing_B_def dict_get_def Let_def)

text \<open>
  C8: for every input list, known-identifier set and limit, no descriptor of the
  filter's output has a \<open>doc_id\<close> that is \<open>None\<close>, the empty string, missing, or
  otherwise falsy.
\<close>

theorem filter_new_filings_drops_falsy_doc_id:
  "\<exists>new_filings. fst (filter_new_filings F K L) = Inr new_filings
     \<and> (\<forall>f \<in> set new_filings.
           truthy (dict_get f ''doc_id'') \<and> f ''doc_id'' \<noteq> None
           \<and> f ''doc_id'' \<noteq> Some PNone \<and> f ''doc_id'' \<noteq> Some (PStr []))"
proof -
  have "truthy (dict_get f ''doc_id'') \<and> f ''doc_id'' \<noteq> None
           \<and> f ''doc_id'' \<noteq> Some PNone \<and> f ''doc_id'' \<noteq> Some (PStr [])"
    if "f \<in> set (filter_new_filings_loop F K L [])" for f
  proof -
    from that filter_new_filings_loop_subset [of F K L "[]"]
    have "truthy (dict_get f ''doc_id'')" by auto
    then show ?thesis by (auto simp: dict_get_def split: option.splits)
  qed
  then show ?thesis by (simp add: filter_new_filings_result)
qed

theorem filter_new_filings_drops_falsy_doc_id_witness:
  "fst (filter_new_filings [filing_none_id, filing_A, filing_empty_id, filing_no_id] {} 3) = Inr [filing_A]
   \<and> filing_A \<in> set [filing_A] \<and> truthy (dict_get filing_A ''doc_id'')"
  using filter_new_filings_drops_falsy_doc_id [of "[filing_none_id, filing_A, filing_empty_id, filing_no_id]" "{}" 3]
  by (simp add: filter_new_filings_result filing_A_def filing_none_id_def filing_empty_id_def
      filing_no_id_def dict_get_def Let_def)

section \<open>Properties of \<open>persist_transactions\<close>\<close>

text \<open>
  C6: if dry-run mode is enabled and the transaction list is non-empty, the persistence
  step neither constructs the persistence gateway nor calls its batch write, and returns
  a summary whose \<open>dry_run\<close> field is true and whose \<open>transactions\<close> field is the length
  of the list.
\<close>

theorem persist_transactions_dry_run:
  "transactions \<noteq> [] \<Longrightarrow>
   \<exists>summary evs. persist_transactions e transactions True = (Inr summary, evs)
     \<and> summary ''dry_run'' = Some (PBool True)
     \<and> summary ''transactions'' = Some (PInt (int (length transactions)))
     \<and> Call DbConstruct \<notin> set evs
     \<and> (\<forall>batch. Call (DbProcessTransactionsBatch batch) \<notin> set evs)"
  by (cases transactions) (simp_all add: persist_transactions_def io_return_def io_log_def io_bind_def)

theorem persist_transactions_dry_run_witness:
  "[raw_row, raw_row] \<noteq> []
   \<and> persist_transactions ex_env [raw_row, raw_row] True =
       (Inr [''dry_run'' \<mapsto> PBool True, ''transactions'' \<mapsto> PInt 2],
        [Log INFO DryRunPreview, Log INFO (PreviewJson raw_row)])"
  using persist_transactions_dry_run [of "[raw_row, raw_row]" ex_env]
  by (simp add: persist_transactions_def io_simps io_log_def)

section \<open>Properties of \<open>process_ptr_pdf\<close>\<close>

lemma extract_pdf_text_returns:
  "\<exists>extracted evs. extract_pdf_text e pdf_bytes = (Inr extracted, evs)"
  by (cases "fitz_open e pdf_bytes"; cases "page_texts (projr (fitz_open e pdf_bytes)) []")
     (simp_all add: extract_pdf_text_def io_simps)

lemma process_ptr_pdf_fallback_result:
  "\<exists>evs. process_ptr_pdf_fallback e pdf_url = (Inr [''transactions'' \<mapsto> []], evs)"
proof (cases "requests_get e pdf_url")
  case (Inl ex)
  then show ?thesis
    by (simp add: process_ptr_pdf_fallback_def download_def io_simps)
next
  case (Inr pdf_bytes)
  obtain extracted evs where "extract_pdf_text e pdf_bytes = (Inr extracted, evs)"
    using extract_pdf_text_returns by blast
  with Inr show ?thesis
    by (simp add: process_ptr_pdf_fallback_def download_def io_simps)
qed

text \<open>Whatever the collaborators do, the rows returned are normalised rows.\<close>

lemma process_ptr_pdf_rows:
  "\<exists>parsed evs. process_ptr_pdf e pdf_url doc_id =
     (Inr [''transactions'' \<mapsto> map normalize_row parsed], evs)"
proof -
  obtain fevs where fb: "process_ptr_pdf_fallback e pdf_url = (Inr [''transactions'' \<mapsto> []], fevs)"
    using process_ptr_pdf_fallback_result by blast
  have empty: "\<exists>parsed evs. (Inr [''transactions'' \<mapsto> []], evs') =
       (Inr [''transactions'' \<mapsto> map normalize_row parsed], evs)" for evs' :: "event list"
    by (rule exI [of _ "[]"]) simp
  show ?thesis
  proof (cases "hor_scan_with_openrouter e")
    case None
    with fb empty show ?thesis by (simp add: process_ptr_pdf_def io_simps)
  next
    case (Some scan)
    note scan = this
    show ?thesis
    proof (cases "hor_parse_llm_transactions e")
      case None
      with scan fb empty show ?thesis by (simp add: process_ptr_pdf_def io_simps)
    next
      case (Some parse)
      note parse = this
      show ?thesis
      proof (cases "scan pdf_url doc_id")
        case (Inl ex)
        with scan parse fb empty show ?thesis by (simp add: process_ptr_pdf_def io_simps)
      next
        case (Inr llm_csv)
        note csv = this
        show ?thesis
        proof (cases "parse llm_csv doc_id")
          case (Inl ex)
          with scan parse csv fb empty show ?thesis
            by (simp add: process_ptr_pdf_def normalize_transactions_def io_simps)
        next
          case (Inr parsed)
          with scan parse csv have "process_ptr_pdf e pdf_url doc_id =
              (Inr [''transactions'' \<mapsto> map normalize_row parsed],
               [Log INFO (ProcessingPdf doc_id), Call (ScanWithOpenrouter pdf_url doc_id),
                Call (HorParseLlmTransactions llm_csv doc_id)])"
            by (simp add: process_ptr_pdf_def normalize_transactions_def io_simps)
          then show ?thesis by blast
        qed
      qed
    qed
  qed
qed

text \<open>
  C10: for every \<open>pdf_url\<close> and \<open>doc_id\<close> and whatever the collaborators do (scanner,
  download or text extraction raising, empty text), \<open>process_ptr_pdf\<close> propagates no
  exception and returns a dictionary whose key \<open>transactions\<close> is bound to a list; the
  list is empty when the download failed, and whenever local text extraction was reached
  (so also when the extracted text is empty).
\<close>

theorem process_ptr_pdf_total:
  "\<exists>d transactions evs.
     process_ptr_pdf e pdf_url doc_id = (Inr d, evs)
     \<and> d ''transactions'' = Some transactions
     \<and> ((\<exists>ex. Log ERROR (DownloadFailed ex) \<in> set evs) \<longrightarrow> transactions = [])
     \<and> ((\<exists>pdf_bytes. Call (FitzOpen pdf_bytes) \<in> set evs) \<longrightarrow> transactions = [])"
proof -
  obtain fevs where fb: "process_ptr_pdf_fallback e pdf_url = (Inr [''transactions'' \<mapsto> []], fevs)"
    using process_ptr_pdf_fallback_result by blast
  show ?thesis
  proof (cases "hor_scan_with_openrouter e")
    case None
    with fb show ?thesis by (simp add: process_ptr_pdf_def io_simps)
  next
    case (Some scan)
    note scan = this
    show ?thesis
    proof (cases "hor_parse_llm_transactions e")
      case None
      with scan fb show ?thesis by (simp add: process_ptr_pdf_def io_simps)
    next
      case (Some parse)
      note parse = this
      show ?thesis
      proof (cases "scan pdf_url doc_id")
        case (Inl ex)
        with scan parse fb show ?thesis by (simp add: process_ptr_pdf_def io_simps)
      next
        case (Inr llm_csv)
        note csv = this
        show ?thesis
        proof (cases "parse llm_csv doc_id")
          case (Inl ex)
          with scan parse csv fb show ?thesis
            by (simp add: process_ptr_pdf_def normalize_transactions_def io_simps)
        next
          case (Inr parsed)
          with scan parse csv show ?thesis
            by (simp add: process_ptr_pdf_def normalize_transactions_def io_simps)
        qed
      qed
    qed
  qed
qed

theorem process_ptr_pdf_total_witness:
  "process_ptr_pdf offline_pdf_env (PStr ''http://a'') (PStr ''A'') =
     (Inr [''transactions'' \<mapsto> []],
      [Log INFO (ProcessingPdf (PStr ''A'')),
       Call (ScanWithOpenrouter (PStr ''http://a'') (PStr ''A'')),
       Log WARNING (ScanFailedFallback (Exception ''llm down'')),
       Call (RequestsGet (PStr ''http://a'')),
       Log ERROR (DownloadFailed (Exception ''offline''))])
   \<and> process_ptr_pdf blank_pdf_env (PStr ''http://a'') (PStr ''A'') =
     (Inr [''transactions'' \<mapsto> []],
      [Log INFO (ProcessingPdf (PStr ''A'')),
       Call (ScanWithOpenrouter (PStr ''http://a'') (PStr ''A'')),
       Log WARNING (ScanFailedFallback (Exception ''llm down'')),
       Call (RequestsGet (PStr ''http://a'')),
       Call (FitzOpen ''%PDF'')])"
  using process_ptr_pdf_total [of offline_pdf_env "PStr ''http://a''" "PStr ''A''"]
  by (simp add: process_ptr_pdf_def process_ptr_pdf_fallback_def download_def extract_pdf_text_def
      offline_pdf_env_def blank_pdf_env_def io_simps io_log_def strip_def py_isspace_def)

section \<open>Properties of the batch extractor\<close>

lemma process_filing_result:
  "process_filing process_pdf idx n filing all_transactions =
     (Inr (all_transactions @ tagged_transactions_of process_pdf filing),
      filing_events process_pdf n (idx, filing))"
proof (cases "process_pdf (dict_get filing ''pdf_url'') (dict_get filing ''doc_id'')")
  case (Pair r evs)
  then show ?thesis
    by (cases r)
       (simp_all add: process_filing_def tagged_transactions_of_def filing_events_def
          Let_def io_simps)
qed

lemma process_filings_loop_result:
  "process_filings_loop process_pdf idx n filings all_transactions =
     (Inr (all_transactions @ concat (map (tagged_transactions_of process_pdf) filings)),
      concat (map (filing_events process_pdf n) (enumerate idx filings)))"
proof (induction filings arbitrary: idx all_transactions)
  case Nil
  show ?case by (simp add: io_return_def)
next
  case (Cons filing filings)
  show ?case
    by (simp add: process_filing_result Cons.IH io_bind_Inr)
qed

lemma process_filings_to_transactions_result:
  "process_filings_to_transactions process_pdf filings =
     (Inr (concat (map (tagged_transactions_of process_pdf) filings)),
      concat (map (filing_events process_pdf (length filings)) (enumerate 1 filings)))"
  by (simp add: process_filings_to_transactions_def process_filings_loop_result)

lemma failure_logged:
  assumes "filing \<in> set filings"
    and "fst (process_pdf (dict_get filing ''pdf_url'') (dict_get filing ''doc_id'')) = Inl ex"
  shows "Log ERROR (FailedProcessing (dict_get filing ''doc_id'') ex)
           \<in> set (concat (map (filing_events process_pdf n) (enumerate idx filings)))"
proof -
  from assms(1) obtain i where i: "i < length filings" "filings ! i = filing"
    by (auto simp: in_set_conv_nth)
  then have "(idx + i, filing) \<in> set (enumerate idx filings)"
    by (auto simp: in_set_enumerate_eq)
  moreover have "Log ERROR (FailedProcessing (dict_get filing ''doc_id'') ex)
                   \<in> set (filing_events process_pdf n (idx + i, filing))"
    using assms(2) by (simp add: filing_events_def)
  ultimately show ?thesis by auto
qed

text \<open>
  C3: for every list of filings the batch extractor raises nothing and returns, in
  order, the tagged transactions of the filings whose extraction returned; a filing whose
  extraction raises contributes no transaction and one logged failure that carries its
  \<open>doc_id\<close>, and the loop goes on with the next filing. In particular, for a batch of
  three filings where the second raises, the result is the tagged transactions of the
  first and the third, and the extractor logs exactly one failure, for the second.
\<close>

theorem process_filings_failure_isolation:
  "process_filings_to_transactions process_pdf filings =
     (Inr (concat (map (tagged_transactions_of process_pdf) filings)),
      concat (map (filing_events process_pdf (length filings)) (enumerate 1 filings)))
   \<and> (filing \<in> set filings
        \<and> fst (process_pdf (dict_get filing ''pdf_url'') (dict_get filing ''doc_id'')) = Inl ex
      \<longrightarrow> tagged_transactions_of process_pdf filing = []
          \<and> Log ERROR (FailedProcessing (dict_get filing ''doc_id'') ex)
               \<in> set (snd (process_filings_to_transactions process_pdf filings)))
   \<and> (process_pdf (dict_get f1 ''pdf_url'') (dict_get f1 ''doc_id'') = (Inr p1, evs1)
        \<and> process_pdf (dict_get f2 ''pdf_url'') (dict_get f2 ''doc_id'') = (Inl ex2, evs2)
        \<and> process_pdf (dict_get f3 ''pdf_url'') (dict_get f3 ''doc_id'') = (Inr p3, evs3)
      \<longrightarrow> process_filings_to_transactions process_pdf [f1, f2, f3] =
            (Inr (map (tag_transaction (dict_get f1 ''doc_id'') (dict_get f1 ''member_name'')
                         (dict_get f1 ''office'') (dict_get f1 ''pdf_url'')) (transactions_of p1)
                  @ map (tag_transaction (dict_get f3 ''doc_id'') (dict_get f3 ''member_name'')
                           (dict_get f3 ''office'') (dict_get f3 ''pdf_url'')) (transactions_of p3)),
             Log INFO (ProcessingFiling 1 3 (dict_get f1 ''doc_id'') (dict_get f1 ''member_name''))
             # evs1
             @ Log INFO (Extracted (dict_get f1 ''doc_id'') (length (transactions_of p1)))
             # Log INFO (ProcessingFiling 2 3 (dict_get f2 ''doc_id'') (dict_get f2 ''member_name''))
             # evs2
             @ Log ERROR (FailedProcessing (dict_get f2 ''doc_id'') ex2)
             # Log INFO (ProcessingFiling 3 3 (dict_get f3 ''doc_id'') (dict_get f3 ''member_name''))
             # evs3
             @ [Log INFO (Extracted (dict_get f3 ''doc_id'') (length (transactions_of p3)))]))"
proof (intro conjI impI)
  show "process_filings_to_transactions process_pdf filings =
     (Inr (concat (map (tagged_transactions_of process_pdf) filings)),
      concat (map (filing_events process_pdf (length filings)) (enumerate 1 filings)))"
    by (rule process_filings_to_transactions_result)
next
  assume "filing \<in> set filings
        \<and> fst (process_pdf (dict_get filing ''pdf_url'') (dict_get filing ''doc_id'')) = Inl ex"
  then show "tagged_transactions_of process_pdf filing = []"
    by (simp add: tagged_transactions_of_def)
next
  assume "filing \<in> set filings
        \<and> fst (process_pdf (dict_get filing ''pdf_url'') (dict_get filing ''doc_id'')) = Inl ex"
  then have "Log ERROR (FailedProcessing (dict_get filing ''doc_id'') ex)
               \<in> set (concat (map (filing_events process_pdf (length filings)) (enumerate 1 filings)))"
    by (intro failure_logged) simp_all
  then show "Log ERROR (FailedProcessing (dict_get filing ''doc_id'') ex)
               \<in> set (snd (process_filings_to_transactions process_pdf filings))"
    by (simp only: process_filings_to_transactions_result snd_conv)
next
  assume "process_pdf (dict_get f1 ''pdf_url'') (dict_get f1 ''doc_id'') = (Inr p1, evs1)
        \<and> process_pdf (dict_get f2 ''pdf_url'') (dict_get f2 ''doc_id'') = (Inl ex2, evs2)
        \<and> process_pdf (dict_get f3 ''pdf_url'') (dict_get f3 ''doc_id'') = (Inr p3, evs3)"
  then show "process_filings_to_transactions process_pdf [f1, f2, f3] =
            (Inr (map (tag_transaction (dict_get f1 ''doc_id'') (dict_get f1 ''member_name'')
                         (dict_get f1 ''office'') (dict_get f1 ''pdf_url'')) (transactions_of p1)
                  @ map (tag_transaction (dict_get f3 ''doc_id'') (dict_get f3 ''member_name'')
                           (dict_get f3 ''office'') (dict_get f3 ''pdf_url'')) (transactions_of p3)),
             Log INFO (ProcessingFiling 1 3 (dict_get f1 ''doc_id'') (dict_get f1 ''member_name''))
             # evs1
             @ Log INFO (Extracted (dict_get f1 ''doc_id'') (length (transactions_of p1)))
             # Log INFO (ProcessingFiling 2 3 (dict_get f2 ''doc_id'') (dict_get f2 ''member_name''))
             # evs2
             @ Log ERROR (FailedProcessing (dict_get f2 ''doc_id'') ex2)
             # Log INFO (ProcessingFiling 3 3 (dict_get f3 ''doc_id'') (dict_get f3 ''member_name''))
             # evs3
             @ [Log INFO (Extracted (dict_get f3 ''doc_id'') (length (transactions_of p3)))])"
    by (simp add: process_filings_to_transactions_result tagged_transactions_of_def
          filing_events_def enumerate_eq_zip upt_rec numeral_3_eq_3)
qed

theorem process_filings_failure_isolation_witness:
  "filing_B \<in> set [filing_A, filing_B, filing_C]
   \<and> failing_B_adapter (dict_get filing_A ''pdf_url'') (dict_get filing_A ''doc_id'') =
       (Inr [''transactions'' \<mapsto> [normalize_row raw_row]], [])
   \<and> failing_B_adapter (dict_get filing_B ''pdf_url'') (dict_get filing_B ''doc_id'') =
       (Inl (Exception ''bad pdf''), [])
   \<and> failing_B_adapter (dict_get filing_C ''pdf_url'') (dict_get filing_C ''doc_id'') =
       (Inr [''transactions'' \<mapsto> [normalize_row raw_row]], [])
   \<and> process_filings_to_transactions failing_B_adapter [filing_A, filing_B, filing_C] =
       (Inr [tag_transaction (PStr ''A'') (PStr ''Rep. A'') (PStr ''House'') (PStr ''http://a'')
               (normalize_row raw_row),
             tag_transaction (PStr ''C'') PNone PNone (PStr ''http://c'') (normalize_row raw_row)],
        [Log INFO (ProcessingFiling 1 3 (PStr ''A'') (PStr ''Rep. A'')),
         Log INFO (Extracted (PStr ''A'') 1),
         Log INFO (ProcessingFiling 2 3 (PStr ''B'') (PStr ''Rep. B'')),
         Log ERROR (FailedProcessing (PStr ''B'') (Exception ''bad pdf'')),
         Log INFO (ProcessingFiling 3 3 (PStr ''C'') PNone),
         Log INFO (Extracted (PStr ''C'') 1)])"
  using process_filings_failure_isolation
    [of failing_B_adapter "[filing_A, filing_B, filing_C]" filing_B "Exception ''bad pdf''"
        filing_A "[''transactions'' \<mapsto> [normalize_row raw_row]]" "[]"
        filing_B "Exception ''bad pdf''" "[]"
        filing_C "[''transactions'' \<mapsto> [normalize_row raw_row]]" "[]"]
  by (simp add: process_filings_to_transactions_result tagged_transactions_of_def
      filing_events_def failing_B_adapter_def filing_A_def filing_B_def filing_C_def
      dict_get_def transactions_of_def enumerate_eq_zip upt_rec numeral_3_eq_3 numeral_2_eq_2)

section \<open>Canonical transaction records\<close>

lemma dom_tagged_normalized:
  "dom (tag_transaction doc_id member_name office pdf_url (normalize_row t)) = canonical_fields"
  by (simp add: tag_transaction_def normalize_row_def canonical_fields_def insert_commute)

lemma dom_senate_transaction:
  "dom (senate_transaction doc_id member_name url t) = canonical_fields"
  by (simp add: senate_transaction_def canonical_fields_def insert_commute)

text \<open>Every House record is a normalised row tagged with its filing's metadata.\<close>

lemma house_record_shape:
  assumes "tx \<in> set (tagged_transactions_of (process_ptr_pdf pe) filing)"
  shows "\<exists>t. tx = tag_transaction (dict_get filing ''doc_id'') (dict_get filing ''member_name'')
                   (dict_get filing ''office'') (dict_get filing ''pdf_url'') (normalize_row t)"
proof -
  obtain parsed evs where
    "process_ptr_pdf pe (dict_get filing ''pdf_url'') (dict_get filing ''doc_id'') =
       (Inr [''transactions'' \<mapsto> map normalize_row parsed], evs)"
    using process_ptr_pdf_rows by blast
  with assms show ?thesis
    by (auto simp: tagged_transactions_of_def transactions_of_def)
qed

text \<open>One link never raises, and appends only records built by \<open>senate_transaction\<close>.\<close>

lemma senate_process_link_result:
  "\<exists>parsed evs. senate_process_link e llm doc_id url member_name transactions =
     (Inr (transactions @ map (senate_transaction doc_id member_name url) parsed), evs)"
proof -
  have skip: "\<exists>parsed evs. (Inr transactions, evs') =
       (Inr (transactions @ map (senate_transaction doc_id member_name url) parsed), evs)"
    for evs' :: "event list"
    by (rule exI [of _ "[]"]) simp
  show ?thesis
  proof (cases "driver_get e url")
    case (Inl ex)
    with skip show ?thesis by (simp add: senate_process_link_def io_simps)
  next
    case (Inr u)
    note got = this
    show ?thesis
    proof (cases "extract_text_from_page e url doc_id")
      case (Inl ex)
      with got skip show ?thesis by (simp add: senate_process_link_def io_simps)
    next
      case (Inr page_text)
      note page = this
      show ?thesis
      proof (cases "strip page_text = []")
        case True
        with got page skip show ?thesis by (simp add: senate_process_link_def io_simps)
      next
        case False
        note nonempty = this
        show ?thesis
        proof (cases "call_llm_api_with_text llm page_text doc_id member_name url")
          case (Inl ex)
          with got page nonempty skip show ?thesis by (simp add: senate_process_link_def io_simps)
        next
          case (Inr csv_text)
          note csv = this
          show ?thesis
          proof (cases "parse_llm_transactions llm (case csv_text of None \<Rightarrow> [] | Some c \<Rightarrow> c) doc_id")
            case (Inl ex)
            with got page nonempty csv skip show ?thesis
              by (simp add: senate_process_link_def io_simps Let_def)
          next
            case (Inr parsed)
            with got page nonempty csv have
              "senate_process_link e llm doc_id url member_name transactions =
                 (Inr (transactions @ map (senate_transaction doc_id member_name url) parsed),
                  [Call (DriverGet url), Call (ExtractTextFromPage doc_id),
                   Call (CallLlmApiWithText page_text doc_id member_name url),
                   Call (SenateParseLlmTransactions (case csv_text of None \<Rightarrow> [] | Some c \<Rightarrow> c) doc_id),
                   Log INFO (SenateExtracted doc_id (length parsed))])"
              by (simp add: senate_process_link_def io_simps io_log_def Let_def)
            then show ?thesis by blast
          qed
        qed
      qed
    qed
  qed
qed

lemma senate_links_loop_records:
  "\<exists>out evs. senate_links_loop e llm max_count links count transactions = (Inr out, evs)
     \<and> (\<forall>tx \<in> set out. tx \<in> set transactions
            \<or> (\<exists>doc_id url member_name t. tx = senate_transaction doc_id member_name url t))"
proof (induction links arbitrary: count transactions)
  case Nil
  show ?case by (simp add: io_return_def)
next
  case (Cons link links)
  obtain doc_id url member_name where link: "link = (doc_id, url, member_name)"
    by (cases link) auto
  obtain parsed evs1 where step:
    "senate_process_link e llm doc_id url member_name transactions =
       (Inr (transactions @ map (senate_transaction doc_id member_name url) parsed), evs1)"
    using senate_process_link_result by blast
  obtain out evs2 where rest:
    "senate_links_loop e llm max_count links (count + 1)
       (transactions @ map (senate_transaction doc_id member_name url) parsed) = (Inr out, evs2)"
    "\<forall>tx \<in> set out. tx \<in> set (transactions @ map (senate_transaction doc_id member_name url) parsed)
            \<or> (\<exists>doc_id url member_name t. tx = senate_transaction doc_id member_name url t)"
    using Cons.IH by blast
  from rest(2) have out: "\<forall>tx \<in> set out. tx \<in> set transactions
            \<or> (\<exists>doc_id url member_name t. tx = senate_transaction doc_id member_name url t)"
    by fastforce
  show ?case
  proof (cases "\<not> truthy doc_id \<or> \<not> truthy url")
    case True
    with link Cons.IH [of count transactions] show ?thesis by simp
  next
    case False
    note guards = this
    show ?thesis
    proof (cases "0 < max_count \<and> max_count \<le> count")
      case True
      with link guards show ?thesis by (simp add: io_return_def)
    next
      case False
      with link guards step rest(1) out show ?thesis
        by (auto simp: io_bind_Inr)
    qed
  qed
qed

lemma senate_links_to_transactions_records:
  assumes "fst (senate_links_to_transactions e links headless max_count) = Inr stxs"
    and "stx \<in> set stxs"
  shows "\<exists>doc_id url member_name t. stx = senate_transaction doc_id member_name url t"
proof (cases "senate_llm e")
  case None
  with assms show ?thesis
    by (simp add: senate_links_to_transactions_def io_simps)
next
  case (Some llm)
  note llm = this
  obtain out evs where loop:
    "senate_links_loop e llm max_count links 0 [] = (Inr out, evs)"
    "\<forall>tx \<in> set out. tx \<in> set []
            \<or> (\<exists>doc_id url member_name t. tx = senate_transaction doc_id member_name url t)"
    using senate_links_loop_records by blast
  show ?thesis
  proof (cases "chrome_start e headless")
    case (Inl ex)
    with llm assms show ?thesis
      by (simp add: senate_links_to_transactions_def io_simps)
  next
    case (Inr u)
    note chrome = this
    show ?thesis
    proof (cases "verify_session e")
      case (Inl ex)
      with llm chrome assms show ?thesis
        by (simp add: senate_links_to_transactions_def io_simps)
    next
      case (Inr v)
      with llm chrome loop(1) assms(1) have "stxs = out"
        by (simp add: senate_links_to_transactions_def io_simps)
      with loop(2) assms(2) show ?thesis by auto
    qed
  qed
qed

text \<open>
  C9: every record produced by the House path (\<open>process_ptr_pdf\<close>'s normalisation, then
  the batch extractor's tagging) and every record produced by the Senate link processing
  has exactly the twelve canonical fields as keys; and a field whose source key is
  missing from the parsed row is present with an explicit value (\<open>None\<close>, or the empty
  string for \<open>comment\<close>).
\<close>

theorem canonical_fields_present:
  "(fst (process_filings_to_transactions (process_ptr_pdf pe) filings) = Inr txs \<and> tx \<in> set txs
      \<longrightarrow> dom tx = canonical_fields)
   \<and> (fst (senate_links_to_transactions e links headless max_count) = Inr stxs \<and> stx \<in> set stxs
      \<longrightarrow> dom stx = canonical_fields)
   \<and> (\<forall>(field, source, missing) \<in> set field_sources.
        t source = None \<longrightarrow>
          tag_transaction doc_id member_name office pdf_url (normalize_row t) field = Some missing
          \<and> senate_transaction doc_id member_name pdf_url t field = Some missing)"
proof (intro conjI impI)
  assume "fst (process_filings_to_transactions (process_ptr_pdf pe) filings) = Inr txs \<and> tx \<in> set txs"
  then have "tx \<in> set (concat (map (tagged_transactions_of (process_ptr_pdf pe)) filings))"
    by (simp add: process_filings_to_transactions_result)
  then obtain filing where "tx \<in> set (tagged_transactions_of (process_ptr_pdf pe) filing)"
    by auto
  then obtain r where "tx = tag_transaction (dict_get filing ''doc_id'') (dict_get filing ''member_name'')
                   (dict_get filing ''office'') (dict_get filing ''pdf_url'') (normalize_row r)"
    using house_record_shape by blast
  then show "dom tx = canonical_fields"
    by (simp only: dom_tagged_normalized)
next
  assume "fst (senate_links_to_transactions e links headless max_count) = Inr stxs \<and> stx \<in> set stxs"
  then obtain d u m r where "stx = senate_transaction d m u r"
    using senate_links_to_transactions_records by blast
  then show "dom stx = canonical_fields"
    by (simp only: dom_senate_transaction)
next
  show "\<forall>(field, source, missing) \<in> set field_sources.
        t source = None \<longrightarrow>
          tag_transaction doc_id member_name office pdf_url (normalize_row t) field = Some missing
          \<and> senate_transaction doc_id member_name pdf_url t field = Some missing"
    by (simp add: field_sources_def tag_transaction_def normalize_row_def senate_transaction_def
        dict_get_def dict_get_default_def)
qed

lemma strip_page_text: "strip ''page text'' \<noteq> []"
  by (simp add: strip_def py_isspace_def)

theorem canonical_fields_present_witness:
  "fst (process_filings_to_transactions (process_ptr_pdf ex_pdf_env) [filing_C]) =
     Inr [tag_transaction (PStr ''C'') PNone PNone (PStr ''http://c'') (normalize_row raw_row)]
   \<and> dom (tag_transaction (PStr ''C'') PNone PNone (PStr ''http://c'') (normalize_row raw_row))
       = canonical_fields
   \<and> fst (senate_links_to_transactions ex_env [(PStr ''S1'', PStr ''http://s1'', PNone)] True 0) =
     Inr [senate_transaction (PStr ''S1'') PNone (PStr ''http://s1'') raw_row]
   \<and> dom (senate_transaction (PStr ''S1'') PNone (PStr ''http://s1'') raw_row) = canonical_fields
   \<and> (''owner'', ''owner_code'', PNone) \<in> set field_sources
   \<and> raw_row ''owner_code'' = None
   \<and> tag_transaction (PStr ''C'') PNone PNone (PStr ''http://c'') (normalize_row raw_row) ''owner''
       = Some PNone
   \<and> senate_transaction (PStr ''S1'') PNone (PStr ''http://s1'') raw_row ''owner'' = Some PNone
   \<and> senate_transaction (PStr ''S1'') PNone (PStr ''http://s1'') raw_row ''comment'' = Some (PStr [])"
proof -
  have house: "fst (process_filings_to_transactions (process_ptr_pdf ex_pdf_env) [filing_C]) =
     Inr [tag_transaction (PStr ''C'') PNone PNone (PStr ''http://c'') (normalize_row raw_row)]"
    by (simp add: process_filings_to_transactions_result tagged_transactions_of_def
        transactions_of_def process_ptr_pdf_def normalize_transactions_def ex_pdf_env_def
        filing_C_def dict_get_def io_simps)
  have senate: "fst (senate_links_to_transactions ex_env [(PStr ''S1'', PStr ''http://s1'', PNone)] True 0) =
     Inr [senate_transaction (PStr ''S1'') PNone (PStr ''http://s1'') raw_row]"
    by (simp add: senate_links_to_transactions_def senate_process_link_def ex_env_def ex_llm_def
        io_simps io_log_def strip_page_text)
  have missing: "(''owner'', ''owner_code'', PNone) \<in> set field_sources" "raw_row ''owner_code'' = None"
    by (simp_all add: field_sources_def raw_row_def)
  have comment: "senate_transaction (PStr ''S1'') PNone (PStr ''http://s1'') raw_row ''comment'' = Some (PStr [])"
    by (simp add: senate_transaction_def raw_row_def dict_get_default_def)
  from house senate missing comment
    canonical_fields_present
      [of ex_pdf_env "[filing_C]"
          "[tag_transaction (PStr ''C'') PNone PNone (PStr ''http://c'') (normalize_row raw_row)]"
          "tag_transaction (PStr ''C'') PNone PNone (PStr ''http://c'') (normalize_row raw_row)"
          ex_env "[(PStr ''S1'', PStr ''http://s1'', PNone)]" True 0
          "[senate_transaction (PStr ''S1'') PNone (PStr ''http://s1'') raw_row]"
          "senate_transaction (PStr ''S1'') PNone (PStr ''http://s1'') raw_row"
          raw_row "PStr ''C''" PNone PNone "PStr ''http://c''"]
  show ?thesis
    by (simp add: senate_transaction_def tag_transaction_def normalize_row_def raw_row_def
        dict_get_def dict_get_default_def canonical_fields_def insert_commute)
qed

section \<open>The driver at concrete inputs\<close>

lemmas driver_defs = main_def scrape_ptrs_def house_stage_def senate_stage_def
  filter_new_filings_result process_filings_to_transactions_result
  senate_scrape_links_def senate_links_to_transactions_def senate_process_link_def
  senate_max_count_def persist_transactions_def process_ptr_pdf_def
  normalize_transactions_def tagged_transactions_of_def filing_events_def transactions_of_def

lemmas example_defs = ex_args_def ex_env_def ex_pdf_env_def ex_llm_def two_rows_env_def
  house_down_env_def senate_down_env_def filing_A_def filing_B_def filing_C_def filing_D_def

text \<open>
  C1 says that with an overall limit \<open>L > 0\<close> the House and Senate stages together
  never process more than \<open>L\<close> new filings. The run below has \<open>--limit 1\<close>: the House
  stage processes filing \<open>A\<close> (one transaction), \<open>remaining\<close> is then 0, \<open>max_count\<close>
  falls back to the full limit 1, and the Senate stage processes link \<open>S1\<close>: two new
  filings are processed.
\<close>

theorem main_exceeds_limit:
  "args_limit ex_args = 1
   \<and> main ex_args ex_env =
       (Inr (),
        [Log INFO (StartingScrape 2025 True None),
         Call (HouseScrape True 2025 None),
         Log INFO (ScrapeComplete 1),
         Call DbConstruct,
         Call DbGetExistingDocIds,
         Log INFO (FilteredNew 1 1),
         Log INFO (ProcessingFiling 1 1 (PStr ''A'') (PStr ''Rep. A'')),
         Log INFO (ProcessingPdf (PStr ''A'')),
         Call (ScanWithOpenrouter (PStr ''http://a'') (PStr ''A'')),
         Call (HorParseLlmTransactions ''csv'' (PStr ''A'')),
         Log INFO (Extracted (PStr ''A'') 1),
         Call SenateScrapeAllPtrLinks,
         Call (ChromeStart True),
         Call VerifySession,
         Call (DriverGet (PStr ''http://s1'')),
         Call (ExtractTextFromPage (PStr ''S1'')),
         Call (CallLlmApiWithText ''page text'' (PStr ''S1'') (PStr ''Sen. One'') (PStr ''http://s1'')),
         Call (SenateParseLlmTransactions ''csv'' (PStr ''S1'')),
         Log INFO (SenateExtracted (PStr ''S1'') 1),
         Call DriverQuit,
         Log INFO DryRunPreview,
         Log INFO (PreviewJson (tag_transaction (PStr ''A'') (PStr ''Rep. A'') (PStr ''House'')
                                  (PStr ''http://a'') (normalize_row raw_row))),
         Log INFO (PipelineComplete [''dry_run'' \<mapsto> PBool True, ''transactions'' \<mapsto> PInt 2])])
   \<and> length (filter starts_filing (snd (main ex_args ex_env))) = 2"
  by (simp add: driver_defs example_defs io_simps io_log_def Let_def dict_get_def
      strip_page_text starts_filing_def)

text \<open>
  C2 says that with limit \<open>L > 0\<close>, the House stage enabled and \<open>k\<close> new House filings,
  the Senate quota is \<open>max(0, L - k)\<close>. With \<open>L = 10\<close> and four new House filings that
  yield two transactions each, the filter returns the four filings, the House stage
  returns eight transactions, and the quota \<open>main\<close> computes from them is 2, not 6.
\<close>

theorem senate_max_count_counts_transactions:
  "map_sum id length (fst (filter_new_filings [filing_A, filing_B, filing_C, filing_D] {} 10)) = Inr 4
   \<and> map_sum id length
        (fst (house_stage two_rows_env True [filing_A, filing_B, filing_C, filing_D] {} 10)) = Inr 8
   \<and> map_sum id (senate_max_count 10 True)
        (fst (house_stage two_rows_env True [filing_A, filing_B, filing_C, filing_D] {} 10)) = Inr 2
   \<and> max 0 (10 - 4) = (6::int)"
  by (simp add: driver_defs example_defs io_simps io_log_def Let_def dict_get_def)

text \<open>
  What the two lines that compute the quota do guarantee: the full limit when the House
  stage is disabled, 0 (unlimited) when there is no limit, and the limit minus the number
  of transaction records collected so far while that difference is positive.
\<close>

lemma senate_max_count_house_disabled:
  "0 < L \<Longrightarrow> senate_max_count L False all_transactions = L"
  by (simp add: senate_max_count_def Let_def)

lemma senate_max_count_no_limit:
  "L \<le> 0 \<Longrightarrow> senate_max_count L include_house all_transactions = 0"
  by (simp add: senate_max_count_def Let_def)

lemma senate_max_count_remaining:
  "int (length all_transactions) < L \<Longrightarrow>
   senate_max_count L True all_transactions = L - int (length all_transactions)"
  by (simp add: senate_max_count_def Let_def)

lemma senate_max_count_exhausted:
  "0 < L \<Longrightarrow> L \<le> int (length all_transactions) \<Longrightarrow>
   senate_max_count L True all_transactions = L"
  by (simp add: senate_max_count_def Let_def)

text \<open>
  C4 says that a scrape that raises, for either source, degrades that source to zero
  filings, is logged, and lets the run continue. When the House scraper raises, \<open>main\<close>
  has no handler around \<open>scrape_ptrs\<close>: the exception leaves \<open>main\<close> and nothing else
  runs. When the Senate scraper raises, \<open>senate_scrape_links\<close> catches and logs it and
  the run goes on to persist the House transactions.
\<close>

theorem main_aborts_when_house_scrape_raises:
  "main ex_args house_down_env =
     (Inl (Exception ''site down''),
      [Log INFO (StartingScrape 2025 True None),
       Call (HouseScrape True 2025 None)])
   \<and> main ex_args senate_down_env =
     (Inr (),
      [Log INFO (StartingScrape 2025 True None),
       Call (HouseScrape True 2025 None),
       Log INFO (ScrapeComplete 1),
       Call DbConstruct,
       Call DbGetExistingDocIds,
       Log INFO (FilteredNew 1 1),
       Log INFO (ProcessingFiling 1 1 (PStr ''A'') (PStr ''Rep. A'')),
       Log INFO (ProcessingPdf (PStr ''A'')),
       Call (ScanWithOpenrouter (PStr ''http://a'') (PStr ''A'')),
       Call (HorParseLlmTransactions ''csv'' (PStr ''A'')),
       Log INFO (Extracted (PStr ''A'') 1),
       Call SenateScrapeAllPtrLinks,
       Log ERROR (SenateScrapingFailed (Exception ''site down'')),
       Log INFO NoSenateLinks,
       Log INFO DryRunPreview,
       Log INFO (PreviewJson (tag_transaction (PStr ''A'') (PStr ''Rep. A'') (PStr ''House'')
                                (PStr ''http://a'') (normalize_row raw_row))),
       Log INFO (PipelineComplete [''dry_run'' \<mapsto> PBool True, ''transactions'' \<mapsto> PInt 1])])"
  by (simp add: driver_defs example_defs io_simps io_log_def Let_def dict_get_def)

end
